theory Spec2Isabelle
  imports Main
begin

section \<open>Data model of loop.go\<close>

text \<open>
  The package constant \<^verbatim>\<open>queueBufferSize\<close>: the capacity of every session's outbound
  channel.
\<close>

definition queueBufferSize :: nat where
  "queueBufferSize = 10000"

text \<open>
  Go \<^verbatim>\<open>error\<close> values. \<^verbatim>\<open>ErrorWrongHeader\<close> is declared in loop.go;
  \<^verbatim>\<open>ErrorSocketOverflood\<close> and \<^verbatim>\<open>protocol.ErrorWrongPacket\<close> are package-level error
  values declared elsewhere; every error produced by the transport, the codec or the
  JSON decoder is an \<open>OtherError\<close> with its text. The Go \<^verbatim>\<open>nil\<close> error is \<open>None\<close>
  of \<open>error option\<close>.
\<close>

datatype error =
    ErrorWrongHeader
  | ErrorSocketOverflood
  | ErrorWrongPacket
  | OtherError string

record Header =
  Sid :: string
  Upgrades :: "string list"
  PingInterval :: int
  PingTimeout :: int

text \<open>
  \<^verbatim>\<open>protocol.Message\<close>, with the two fields loop.go reads, and the message types its
  \<^verbatim>\<open>switch\<close> distinguishes (every other type falls to \<^verbatim>\<open>default\<close>).
\<close>

datatype MessageType =
    MessageTypeOpen
  | MessageTypePing
  | MessageTypePong
  | MessageTypeOther nat

record Message =
  Type :: MessageType
  Source :: string

datatype loop_event = OnConnection | OnDisconnection

text \<open>
  Every action of the loops on the session, the transport, the registry and the event
  dispatcher, in the order the code performs it. The log makes the order of effects a
  property of the model.
\<close>

datatype effect =
    ConnClose
  | ConnWrite string
  | SetAlive bool
  | Send string
  | Recv string
  | CallLoopEvent loop_event
  | GoProcessIncoming Message
  | StoreOverflow
  | DeleteOverflooded

text \<open>
  The transport \<^verbatim>\<open>transport.Connection\<close> is an interface implemented outside loop.go.
  Its behaviour is a script: what the successive calls of \<^verbatim>\<open>GetMessage\<close> and of
  \<^verbatim>\<open>WriteMessage\<close> will return. A call made when the script is exhausted does not
  return (the goroutine stays suspended in the transport). \<open>pingParams\<close> is what
  \<^verbatim>\<open>PingParams\<close> returns: the ping interval and the ping timeout, two values of
  \<^verbatim>\<open>time.Duration\<close>.
\<close>

record Connection =
  reads :: "(error + string) list"
  writes :: "error option list"
  pingParams :: "int \<times> int"

text \<open>
  The struct \<^verbatim>\<open>Channel\<close>: the transport, the buffered channel \<^verbatim>\<open>out\<close> (its content, oldest
  first), the header and the liveness flag; \<open>self\<close> is the address of the struct, the
  key under which the session is stored in the registry. The state of the program adds
  the package-level \<^verbatim>\<open>overflooded\<close> map (only its key set matters, the values are empty
  structs) and the log of effects.
\<close>

record Channel =
  conn :: Connection
  out :: "string list"
  header :: Header
  alive :: bool
  self :: nat

record state = Channel +
  overflooded :: "nat set"
  trace :: "effect list"

text \<open>
  What loop.go takes from its collaborators: the three frames of package protocol that
  the engine synthesises, \<^verbatim>\<open>protocol.Decode\<close>, and \<^verbatim>\<open>json.Unmarshal\<close> into a Header (the
  decoder receives the current header and returns the error together with the header
  as it leaves it).
\<close>

record env =
  CloseMessage :: string
  PingMessage :: string
  PongMessage :: string
  Decode :: "string \<Rightarrow> error + Message"
  Unmarshal :: "string \<Rightarrow> Header \<Rightarrow> error option \<times> Header"

text \<open>
  How a piece of code leaves: the enclosing loop goes on, the function returns a value,
  the goroutine is suspended on a channel or transport operation, or it panics.
\<close>

datatype 'a flow = Continue | Return 'a | Block | Panic

section \<open>Primitive operations\<close>

text \<open>\<^verbatim>\<open>c.out <- v\<close> on a channel of capacity \<^verbatim>\<open>queueBufferSize\<close>: \<open>None\<close> when it is full.\<close>

definition chan_send :: "string \<Rightarrow> state \<Rightarrow> state option" where
  "chan_send v s =
     (if length (out s) < queueBufferSize
      then Some (s\<lparr>out := out s @ [v], trace := trace s @ [Send v]\<rparr>)
      else None)"

text \<open>\<^verbatim>\<open><-c.out\<close>: \<open>None\<close> when the channel is empty.\<close>

definition chan_recv :: "state \<Rightarrow> (string \<times> state) option" where
  "chan_recv s =
     (case out s of
        [] \<Rightarrow> None
      | v # q \<Rightarrow> Some (v, s\<lparr>out := q, trace := trace s @ [Recv v]\<rparr>))"

definition IsAlive :: "state \<Rightarrow> bool" where
  "IsAlive s = alive s"

definition setAliveValue :: "bool \<Rightarrow> state \<Rightarrow> state" where
  "setAliveValue v s = s\<lparr>alive := v, trace := trace s @ [SetAlive v]\<rparr>"

definition initChannel :: "state \<Rightarrow> state" where
  "initChannel s = setAliveValue True (s\<lparr>out := []\<rparr>)"

definition Id :: "state \<Rightarrow> string" where
  "Id s = Sid (header s)"

definition deleteOverflooded :: "state \<Rightarrow> state" where
  "deleteOverflooded s =
     s\<lparr>overflooded := overflooded s - {self s}, trace := trace s @ [DeleteOverflooded]\<rparr>"

definition storeOverflow :: "state \<Rightarrow> state" where
  "storeOverflow s =
     s\<lparr>overflooded := insert (self s) (overflooded s), trace := trace s @ [StoreOverflow]\<rparr>"

text \<open>\<^verbatim>\<open>c.conn.Close()\<close>, \<^verbatim>\<open>c.conn.GetMessage()\<close> and \<^verbatim>\<open>c.conn.WriteMessage(msg)\<close>.\<close>

definition connClose :: "state \<Rightarrow> state" where
  "connClose s = s\<lparr>trace := trace s @ [ConnClose]\<rparr>"

definition GetMessage :: "state \<Rightarrow> ((error + string) \<times> state) option" where
  "GetMessage s =
     (case reads (conn s) of
        [] \<Rightarrow> None
      | r # rs \<Rightarrow> Some (r, s\<lparr>conn := (conn s)\<lparr>reads := rs\<rparr>\<rparr>))"

definition WriteMessage :: "string \<Rightarrow> state \<Rightarrow> (error option \<times> state) option" where
  "WriteMessage msg s =
     (case writes (conn s) of
        [] \<Rightarrow> None
      | w # ws \<Rightarrow>
          Some (w, s\<lparr>conn := (conn s)\<lparr>writes := ws\<rparr>, trace := trace s @ [ConnWrite msg]\<rparr>))"

text \<open>
  \<^verbatim>\<open>m.callLoopEvent(c, event)\<close>: the call carries the session and the event name.
\<close>

definition callLoopEvent :: "loop_event \<Rightarrow> state \<Rightarrow> state" where
  "callLoopEvent ev s = s\<lparr>trace := trace s @ [CallLoopEvent ev]\<rparr>"

section \<open>closeChannel\<close>

text \<open>The loop \<^verbatim>\<open>for len(c.out) > 0 { <-c.out }\<close>.\<close>

function drain :: "state \<Rightarrow> state" where
  "drain s =
     (if 0 < length (out s)
      then (case chan_recv s of None \<Rightarrow> s | Some (v, s') \<Rightarrow> drain s')
      else s)"
  by pat_completeness auto
termination
  by (relation "measure (\<lambda>s. length (out s))")
     (auto simp: chan_recv_def split: list.splits)

declare drain.simps [simp del]

lemma drain_eq: "drain s = s\<lparr>out := [], trace := trace s @ map Recv (out s)\<rparr>"
proof (induction s rule: drain.induct)
  case (1 s)
  show ?case
  proof (cases "out s")
    case Nil
    then show ?thesis by (subst drain.simps) simp
  next
    case (Cons v q)
    then have "chan_recv s = Some (v, s\<lparr>out := q, trace := trace s @ [Recv v]\<rparr>)"
      by (simp add: chan_recv_def)
    with 1 Cons show ?thesis by (subst drain.simps) simp
  qed
qed

lemma queueBufferSize_pos: "0 < queueBufferSize"
  by (simp add: queueBufferSize_def)

text \<open>
  \<^verbatim>\<open>closeChannel(c, m, args...)\<close>. The variadic \<^verbatim>\<open>args\<close> (the cause) is never read.
\<close>

definition closeChannel :: "env \<Rightarrow> state \<Rightarrow> error list \<Rightarrow> error option flow \<times> state" where
  "closeChannel E s args =
     (if \<not> IsAlive s then (Return None, s)
      else
        let s1 = connClose s;
            s2 = setAliveValue False s1;
            s3 = drain s2
        in (case chan_send (CloseMessage E) s3 of
              None \<Rightarrow> (Block, s3)
            | Some s4 \<Rightarrow>
                let s5 = callLoopEvent OnDisconnection s4;
                    s6 = deleteOverflooded s5
                in (Return None, s6)))"

lemma closeChannel_alive:
  "alive s \<Longrightarrow> closeChannel E s args =
     (Return None,
      s\<lparr>out := [CloseMessage E], alive := False,
        overflooded := overflooded s - {self s},
        trace := trace s @ [ConnClose, SetAlive False] @ map Recv (out s) @
                 [Send (CloseMessage E), CallLoopEvent OnDisconnection, DeleteOverflooded]\<rparr>)"
  by (simp add: closeChannel_def IsAlive_def connClose_def setAliveValue_def drain_eq
      chan_send_def queueBufferSize_pos callLoopEvent_def deleteOverflooded_def)

lemma closeChannel_dead: "\<not> alive s \<Longrightarrow> closeChannel E s args = (Return None, s)"
  by (simp add: closeChannel_def IsAlive_def)

lemma closeChannel_returns: "fst (closeChannel E s args) = Return None"
  by (cases "alive s") (simp_all add: closeChannel_alive closeChannel_dead)

lemma closeChannel_conn: "conn (snd (closeChannel E s args)) = conn s"
  by (cases "alive s") (simp_all add: closeChannel_alive closeChannel_dead)


section \<open>inLoop\<close>

text \<open>The \<^verbatim>\<open>switch msg.Type\<close> of the reader loop.\<close>

definition inDispatch :: "env \<Rightarrow> Message \<Rightarrow> state \<Rightarrow> error option flow \<times> state" where
  "inDispatch E msg s =
     (case Type msg of
        MessageTypeOpen \<Rightarrow>
          (case Source msg of
             [] \<Rightarrow> (Panic, s)
           | b # payload \<Rightarrow>
               (case Unmarshal E payload (header s) of
                  (err, h) \<Rightarrow>
                    let s1 = s\<lparr>header := h\<rparr> in
                    (case err of
                       None \<Rightarrow> (Continue, callLoopEvent OnConnection s1)
                     | Some e \<Rightarrow>
                         (case closeChannel E s1 [ErrorWrongHeader] of
                            (Block, s2) \<Rightarrow> (Block, s2)
                          | (_, s2) \<Rightarrow> (Continue, callLoopEvent OnConnection s2)))))
      | MessageTypePing \<Rightarrow>
          (case chan_send (PongMessage E) s of
             None \<Rightarrow> (Block, s)
           | Some s1 \<Rightarrow> (Continue, s1))
      | MessageTypePong \<Rightarrow> (Continue, s)
      | MessageTypeOther k \<Rightarrow> (Continue, s\<lparr>trace := trace s @ [GoProcessIncoming msg]\<rparr>))"

lemma inDispatch_conn: "conn (snd (inDispatch E msg s)) = conn s"
proof (cases "Type msg")
  case MessageTypeOpen
  show ?thesis
  proof (cases "Source msg")
    case Nil
    with MessageTypeOpen show ?thesis by (simp add: inDispatch_def)
  next
    case (Cons b payload)
    obtain err h where u: "Unmarshal E payload (header s) = (err, h)"
      by (cases "Unmarshal E payload (header s)")
    show ?thesis
    proof (cases err)
      case None
      with MessageTypeOpen Cons u show ?thesis
        by (simp add: inDispatch_def callLoopEvent_def)
    next
      case (Some e)
      have "conn (snd (closeChannel E (s\<lparr>header := h\<rparr>) [ErrorWrongHeader])) = conn s"
        by (simp add: closeChannel_conn)
      with MessageTypeOpen Cons u Some show ?thesis
        by (auto simp: inDispatch_def callLoopEvent_def split: prod.splits flow.splits)
    qed
  qed
next
  case MessageTypePing
  then show ?thesis
    by (simp add: inDispatch_def chan_send_def)
next
  case MessageTypePong
  then show ?thesis by (simp add: inDispatch_def)
next
  case (MessageTypeOther k)
  then show ?thesis by (simp add: inDispatch_def)
qed


text \<open>The reader loop \<^verbatim>\<open>inLoop\<close>.\<close>

function inLoop :: "env \<Rightarrow> state \<Rightarrow> error option flow \<times> state" where
  "inLoop E s =
     (case GetMessage s of
        None \<Rightarrow> (Block, s)
      | Some (r, s1) \<Rightarrow>
          (case r of
             Inl err \<Rightarrow> closeChannel E s1 [err]
           | Inr pkg \<Rightarrow>
               (case Decode E pkg of
                  Inl err \<Rightarrow>
                    (case closeChannel E s1 [ErrorWrongPacket] of
                       (Block, s2) \<Rightarrow> (Block, s2)
                     | (_, s2) \<Rightarrow> (Return (Some err), s2))
                | Inr msg \<Rightarrow>
                    (case inDispatch E msg s1 of
                       (Continue, s2) \<Rightarrow> inLoop E s2
                     | (f, s2) \<Rightarrow> (f, s2)))))"
  by pat_completeness auto

lemma GetMessage_reads:
  "GetMessage s = Some (r, s1) \<Longrightarrow> length (reads (conn s1)) < length (reads (conn s))"
  by (auto simp: GetMessage_def split: list.splits)

termination inLoop
proof (relation "measure (\<lambda>(E, s). length (reads (conn s)))", goal_cases)
  case 1
  show ?case by simp
next
  case (2 E s x2 r s1 pkg msg x y)
  from 2 have g: "GetMessage s = Some (r, s1)" by simp
  from 2 have "inDispatch E msg s1 = (Continue, y)" by simp
  then have "conn y = conn s1"
    using inDispatch_conn [of E msg s1] by simp
  with GetMessage_reads [OF g] show ?case by simp
qed

declare inLoop.simps [simp del]


section \<open>outLoop\<close>

text \<open>
  The body of the writer loop after the depth check: the dequeue, the test for the
  terminal frame and the transport write.
\<close>

definition outSend :: "env \<Rightarrow> state \<Rightarrow> error option flow \<times> state" where
  "outSend E s =
     (case chan_recv s of
        None \<Rightarrow> (Block, s)
      | Some (msg, s1) \<Rightarrow>
          if msg = CloseMessage E then (Return None, s1)
          else
            (case WriteMessage msg s1 of
               None \<Rightarrow> (Block, s1)
             | Some (err, s2) \<Rightarrow>
                 (case err of
                    Some e \<Rightarrow> closeChannel E s2 [e]
                  | None \<Rightarrow> (Continue, s2))))"

text \<open>One iteration of the writer loop \<^verbatim>\<open>outLoop\<close>.\<close>

definition outIter :: "env \<Rightarrow> state \<Rightarrow> error option flow \<times> state" where
  "outIter E s =
     (let outBufferLen = length (out s) in
      if outBufferLen \<ge> queueBufferSize - 1 then closeChannel E s [ErrorSocketOverflood]
      else if outBufferLen > queueBufferSize div 2 then outSend E (storeOverflow s)
      else outSend E (deleteOverflooded s))"

lemma outSend_Continue:
  "outSend E s = (Continue, s1) \<Longrightarrow> length (out s1) < length (out s)"
  using closeChannel_returns
  apply (auto simp: outSend_def chan_recv_def WriteMessage_def split: list.splits option.splits if_splits)
  by (metis flow.distinct(1) fst_conv)

lemma outIter_Continue:
  "outIter E s = (Continue, s1) \<Longrightarrow> length (out s1) < length (out s)"
  using closeChannel_returns [of E s "[ErrorSocketOverflood]"]
    outSend_Continue [of E "storeOverflow s" s1] outSend_Continue [of E "deleteOverflooded s" s1]
  by (auto simp: outIter_def Let_def storeOverflow_def deleteOverflooded_def split: if_splits)

text \<open>The writer loop \<^verbatim>\<open>outLoop\<close>.\<close>

function outLoop :: "env \<Rightarrow> state \<Rightarrow> error option flow \<times> state" where
  "outLoop E s =
     (case outIter E s of
        (Continue, s1) \<Rightarrow> outLoop E s1
      | (f, s1) \<Rightarrow> (f, s1))"
  by pat_completeness auto
termination outLoop
proof (relation "measure (\<lambda>(E, s). length (out s))", goal_cases)
  case 1
  show ?case by simp
next
  case (2 E s x y)
  from 2 have "outIter E s = (Continue, y)" by simp
  from outIter_Continue [OF this] show ?case by simp
qed

declare outLoop.simps [simp del]

section \<open>pinger\<close>

text \<open>One tick of \<^verbatim>\<open>pinger\<close>: the body of its loop after \<^verbatim>\<open><-ticker.C\<close>.\<close>

definition pingerTick :: "env \<Rightarrow> state \<Rightarrow> unit flow \<times> state" where
  "pingerTick E s =
     (if \<not> IsAlive s then (Return (), s)
      else
        (case chan_send (PingMessage E) s of
           None \<Rightarrow> (Block, s)
         | Some s1 \<Rightarrow> (Continue, s1)))"



section \<open>The ack correlator\<close>

text \<open>
  Modelled from the spec: the type \<^verbatim>\<open>ackProcessor\<close> of the field \<^verbatim>\<open>Channel.ack\<close> is declared
  outside loop.go. This is the result a waiter receives: the payload of the matching
  reply, or a timeout.
\<close>

datatype ack_result = AckReply string | AckTimeout

text \<open>
  Modelled from the spec: the waiter table of \<^verbatim>\<open>ackProcessor\<close>, absent from loop.go. Each
  pending correlation id maps to the deadline of its waiter; \<open>resolved\<close> lists, in
  order, every result handed to a waiter.
\<close>

record ackProcessor =
  resultWaiters :: "nat \<rightharpoonup> nat"
  resolved :: "(nat \<times> ack_result) list"

text \<open>
  Modelled from the spec: registration of a waiter by a correlated send (absent from
  loop.go); the id must be unique among the pending waiters.
\<close>

definition addWaiter :: "nat \<Rightarrow> nat \<Rightarrow> ackProcessor \<Rightarrow> ackProcessor option" where
  "addWaiter cid deadline ap =
     (case resultWaiters ap cid of
        Some d \<Rightarrow> None
      | None \<Rightarrow> Some (ap\<lparr>resultWaiters := (resultWaiters ap)(cid \<mapsto> deadline)\<rparr>))"

text \<open>
  Modelled from the spec: resolution by reply (absent from loop.go). An inbound reply
  with a matching id delivers its payload to the waiter and removes it from the table;
  a reply for an id with no pending waiter is dropped.
\<close>

definition deliverReply :: "nat \<Rightarrow> string \<Rightarrow> ackProcessor \<Rightarrow> ackProcessor" where
  "deliverReply cid payload ap =
     (case resultWaiters ap cid of
        None \<Rightarrow> ap
      | Some d \<Rightarrow>
          ap\<lparr>resultWaiters := (resultWaiters ap)(cid := None),
             resolved := resolved ap @ [(cid, AckReply payload)]\<rparr>)"

text \<open>
  Modelled from the spec: resolution by expiry (absent from loop.go). When the timeout
  mechanism looks at an id at time \<open>now\<close>, a pending waiter whose deadline has elapsed gets
  the timeout result and is removed; otherwise nothing happens.
\<close>

definition expire :: "nat \<Rightarrow> nat \<Rightarrow> ackProcessor \<Rightarrow> ackProcessor" where
  "expire now cid ap =
     (case resultWaiters ap cid of
        None \<Rightarrow> ap
      | Some d \<Rightarrow>
          if d \<le> now
          then ap\<lparr>resultWaiters := (resultWaiters ap)(cid := None),
                  resolved := resolved ap @ [(cid, AckTimeout)]\<rparr>
          else ap)"

text \<open>
  Modelled from the spec: the two resolution paths as events on the table (absent from
  loop.go): a reply for an id arrives, or the timeout mechanism looks at an id at a time.
\<close>

datatype ack_event = ReplyArrives nat string | TimerFires nat nat

text \<open>Modelled from the spec: the effect of one event on the waiter table.\<close>

fun ack_step :: "ack_event \<Rightarrow> ackProcessor \<Rightarrow> ackProcessor" where
  "ack_step (ReplyArrives cid payload) ap = deliverReply cid payload ap"
| "ack_step (TimerFires now cid) ap = expire now cid ap"

text \<open>Modelled from the spec: the events applied in the order they occur.\<close>

fun ack_run :: "ack_event list \<Rightarrow> ackProcessor \<Rightarrow> ackProcessor" where
  "ack_run [] ap = ap"
| "ack_run (ev # evs) ap = ack_run evs (ack_step ev ap)"

text \<open>Modelled from the spec: the results the waiters of one id have received.\<close>

definition resolutions_of :: "nat \<Rightarrow> ackProcessor \<Rightarrow> ack_result list" where
  "resolutions_of cid ap = map snd (filter (\<lambda>r. fst r = cid) (resolved ap))"

section \<open>Order of effects, and a concrete environment\<close>

text \<open>\<open>precedes a b tr\<close>: \<open>a\<close> occurs in the log, and \<open>b\<close> occurs after its first occurrence.\<close>

fun precedes :: "'a \<Rightarrow> 'a \<Rightarrow> 'a list \<Rightarrow> bool" where
  "precedes a b [] = False"
| "precedes a b (x # xs) = (if x = a then b \<in> set xs else precedes a b xs)"

text \<open>
  The examples below run the model in one concrete environment. The three frames are
  the engine.io packets \<^verbatim>\<open>1\<close> (close), \<^verbatim>\<open>2\<close> (ping) and \<^verbatim>\<open>3\<close> (pong); the codec reads the
  message type from the first byte and keeps the whole text as \<open>Source\<close>.

  \<open>sampleUnmarshal\<close> is \<^verbatim>\<open>json.Unmarshal\<close> into a \<^verbatim>\<open>Header\<close> on the payloads the examples
  use, and only there. A full handshake sets the four fields. A handshake whose
  \<^verbatim>\<open>pingInterval\<close> is a string is a type error: the decoder skips that field, completes
  the others and reports the error, so the session id, the upgrades and the ping
  timeout are written and the ping interval is not. A handshake with the session id
  alone sets that field. Text that is not JSON (the examples use \<^verbatim>\<open>x\<close>) is a syntax
  error, found before anything is written; the last branch gives that answer for every
  text outside the table.
\<close>

definition sampleDecode :: "string \<Rightarrow> error + Message" where
  "sampleDecode data =
     (case data of
        [] \<Rightarrow> Inl (OtherError ''Wrong message type'')
      | t # rest \<Rightarrow>
          if t = CHR ''0'' then Inr \<lparr>Type = MessageTypeOpen, Source = data\<rparr>
          else if t = CHR ''2'' then Inr \<lparr>Type = MessageTypePing, Source = data\<rparr>
          else if t = CHR ''3'' then Inr \<lparr>Type = MessageTypePong, Source = data\<rparr>
          else if t = CHR ''4'' then Inr \<lparr>Type = MessageTypeOther 4, Source = data\<rparr>
          else Inl (OtherError ''Wrong message type''))"

definition sampleUnmarshal :: "string \<Rightarrow> Header \<Rightarrow> error option \<times> Header" where
  "sampleUnmarshal p h =
     (if p = ''{\"sid\":\"abc\",\"upgrades\":[\"websocket\"],\"pingInterval\":25000,\"pingTimeout\":60000}''
      then (None, h\<lparr>Sid := ''abc'', Upgrades := [''websocket''], PingInterval := 25000,
                     PingTimeout := 60000\<rparr>)
      else if p = ''{\"sid\":\"abc\",\"upgrades\":[\"websocket\"],\"pingInterval\":\"soon\",\"pingTimeout\":60000}''
      then (Some (OtherError ''json: cannot unmarshal string into Go struct field Header.pingInterval of type int''),
            h\<lparr>Sid := ''abc'', Upgrades := [''websocket''], PingTimeout := 60000\<rparr>)
      else if p = ''{\"sid\":\"abc\"}'' then (None, h\<lparr>Sid := ''abc''\<rparr>)
      else if p = ''{\"sid\":\"xyz\"}'' then (None, h\<lparr>Sid := ''xyz''\<rparr>)
      else (Some (OtherError ''invalid character''), h))"

definition sampleEnv :: env where
  "sampleEnv = \<lparr>CloseMessage = ''1'', PingMessage = ''2'', PongMessage = ''3'',
                 Decode = sampleDecode, Unmarshal = sampleUnmarshal\<rparr>"

text \<open>The zero value of \<^verbatim>\<open>Header\<close>, which a new \<^verbatim>\<open>Channel\<close> holds.\<close>

definition zeroHeader :: Header where
  "zeroHeader = \<lparr>Sid = [], Upgrades = [], PingInterval = 0, PingTimeout = 0\<rparr>"

text \<open>
  A live session at address 7 with the given transport script and queue content, in a
  registry that holds this session and another one, at address 8.
\<close>

definition newSession :: "Connection \<Rightarrow> string list \<Rightarrow> state" where
  "newSession c q =
     \<lparr>conn = c, out = q, header = zeroHeader, alive = True, self = 7,
      overflooded = {7, 8}, trace = []\<rparr>"

text \<open>A waiter table with one pending waiter: id 3, deadline 5.\<close>

definition sampleAck :: ackProcessor where
  "sampleAck = \<lparr>resultWaiters = [3 \<mapsto> 5], resolved = []\<rparr>"

section \<open>Properties of the loops\<close>




lemma outLoop_stop:
  "outIter E s = (Return r, s1) \<Longrightarrow> outLoop E s = (Return r, s1)"
  by (subst outLoop.simps) simp

lemma outLoop_overflow:
  "queueBufferSize - 1 \<le> length (out s) \<Longrightarrow>
   outLoop E s = closeChannel E s [ErrorSocketOverflood]"
proof -
  assume d: "queueBufferSize - 1 \<le> length (out s)"
  obtain s1 where c: "closeChannel E s [ErrorSocketOverflood] = (Return None, s1)"
    using closeChannel_returns [of E s "[ErrorSocketOverflood]"]
    by (cases "closeChannel E s [ErrorSocketOverflood]") simp
  from d have "outIter E s = closeChannel E s [ErrorSocketOverflood]"
    by (simp add: outIter_def)
  with c show ?thesis by (simp add: outLoop_stop)
qed

lemma outLoop_sentinel:
  "length (out s) < queueBufferSize - 1 \<Longrightarrow> out s = CloseMessage E # q \<Longrightarrow>
   fst (outLoop E s) = Return None \<and> conn (snd (outLoop E s)) = conn s \<and>
   out (snd (outLoop E s)) = q"
proof -
  assume d: "length (out s) < queueBufferSize - 1" and o: "out s = CloseMessage E # q"
  have "\<exists>s1. outIter E s = (Return None, s1) \<and> conn s1 = conn s \<and> out s1 = q"
    using d o
    by (simp add: outIter_def outSend_def chan_recv_def storeOverflow_def deleteOverflooded_def)
  then obtain s1 where "outIter E s = (Return None, s1)" "conn s1 = conn s" "out s1 = q"
    by blast
  then show ?thesis by (simp add: outLoop_stop)
qed

lemma inDispatch_open:
  "Type msg = MessageTypeOpen \<Longrightarrow> Source msg = b # payload \<Longrightarrow>
   Unmarshal E payload (header s) = (Some e, h) \<Longrightarrow>
   inDispatch E msg s =
     (Continue,
      callLoopEvent OnConnection (snd (closeChannel E (s\<lparr>header := h\<rparr>) [ErrorWrongHeader])))"
proof -
  assume t: "Type msg = MessageTypeOpen" and src: "Source msg = b # payload"
    and u: "Unmarshal E payload (header s) = (Some e, h)"
  obtain s2 where c: "closeChannel E (s\<lparr>header := h\<rparr>) [ErrorWrongHeader] = (Return None, s2)"
    using closeChannel_returns [of E "s\<lparr>header := h\<rparr>" "[ErrorWrongHeader]"]
    by (cases "closeChannel E (s\<lparr>header := h\<rparr>) [ErrorWrongHeader]") simp
  show ?thesis
    using t src u c by (simp add: inDispatch_def)
qed

lemma inDispatch_open_ok:
  "Type msg = MessageTypeOpen \<Longrightarrow> Source msg = b # payload \<Longrightarrow>
   Unmarshal E payload (header s) = (None, h) \<Longrightarrow>
   inDispatch E msg s = (Continue, callLoopEvent OnConnection (s\<lparr>header := h\<rparr>))"
  by (simp add: inDispatch_def)






lemma inDispatch_open_no_panic:
  assumes "Type msg = MessageTypeOpen" and "Source msg = b # payload"
  shows "fst (inDispatch E msg s) = Continue"
proof -
  obtain err h where u: "Unmarshal E payload (header s) = (err, h)"
    by (cases "Unmarshal E payload (header s)")
  show ?thesis
  proof (cases err)
    case None
    with assms u show ?thesis by (simp add: inDispatch_open_ok)
  next
    case (Some e)
    with assms u show ?thesis by (simp add: inDispatch_open)
  qed
qed







section \<open>Properties of the ack correlator\<close>

lemma ack_step_idle:
  "resultWaiters ap cid = None \<Longrightarrow>
   resultWaiters (ack_step ev ap) cid = None \<and>
   resolutions_of cid (ack_step ev ap) = resolutions_of cid ap"
  by (cases ev)
     (auto simp: deliverReply_def expire_def resolutions_of_def split: option.splits)

lemma ack_run_idle:
  "resultWaiters ap cid = None \<Longrightarrow> resolutions_of cid (ack_run evs ap) = resolutions_of cid ap"
proof (induction evs arbitrary: ap)
  case Nil
  then show ?case by simp
next
  case (Cons ev evs)
  from ack_step_idle [OF Cons.prems, of ev] Cons.IH [of "ack_step ev ap"]
  show ?case by simp
qed

lemma ack_step_pending:
  "resultWaiters ap cid = Some d \<Longrightarrow>
   (resultWaiters (ack_step ev ap) cid = Some d \<and>
    resolutions_of cid (ack_step ev ap) = resolutions_of cid ap) \<or>
   (resultWaiters (ack_step ev ap) cid = None \<and>
    (\<exists>r. resolutions_of cid (ack_step ev ap) = resolutions_of cid ap @ [r]))"
  by (cases ev)
     (auto simp: deliverReply_def expire_def resolutions_of_def split: option.splits)

lemma ack_run_pending:
  "resultWaiters ap cid = Some d \<Longrightarrow>
   length (resolutions_of cid (ack_run evs ap)) \<le> Suc (length (resolutions_of cid ap))"
proof (induction evs arbitrary: ap)
  case Nil
  then show ?case by simp
next
  case (Cons ev evs)
  from ack_step_pending [OF Cons.prems, of ev]
  show ?case
  proof
    assume "resultWaiters (ack_step ev ap) cid = Some d \<and>
      resolutions_of cid (ack_step ev ap) = resolutions_of cid ap"
    with Cons.IH [of "ack_step ev ap"] show ?thesis by simp
  next
    assume "resultWaiters (ack_step ev ap) cid = None \<and>
      (\<exists>r. resolutions_of cid (ack_step ev ap) = resolutions_of cid ap @ [r])"
    with ack_run_idle [of "ack_step ev ap" cid evs] show ?thesis by auto
  qed
qed

lemma ack_run_reply_first:
  "resultWaiters ap cid = Some d \<Longrightarrow>
   resolutions_of cid (ack_run (ReplyArrives cid p # evs) ap) = resolutions_of cid ap @ [AckReply p]"
  using ack_run_idle [of "deliverReply cid p ap" cid evs]
  by (simp add: deliverReply_def resolutions_of_def)

lemma ack_run_timeout_first:
  "resultWaiters ap cid = Some d \<Longrightarrow> d \<le> now \<Longrightarrow>
   resolutions_of cid (ack_run (TimerFires now cid # evs) ap) = resolutions_of cid ap @ [AckTimeout]"
  using ack_run_idle [of "expire now cid ap" cid evs]
  by (simp add: expire_def resolutions_of_def)

section \<open>Close\<close>

text \<open>
  Claim C1, as amended. On a session whose liveness flag is true, \<^verbatim>\<open>closeChannel\<close> returns
  \<^verbatim>\<open>nil\<close> and performs exactly these effects, in this order: it closes the transport
  handle, clears the liveness flag, receives (and so discards) every frame queued in
  \<^verbatim>\<open>out\<close>, sends the terminal frame, so that the queue holds that frame and nothing else,
  calls the dispatcher with the disconnection event, and deletes the session from the
  overflow registry, whose other members stay. The transport is closed before the flag
  is cleared. The equation holds for every \<open>cause\<close>.
\<close>

theorem closeChannel_effects:
  "alive s \<Longrightarrow>
   closeChannel E s cause =
     (Return None,
      s\<lparr>out := [CloseMessage E], alive := False,
        overflooded := overflooded s - {self s},
        trace := trace s @ [ConnClose, SetAlive False] @ map Recv (out s) @
                 [Send (CloseMessage E), CallLoopEvent OnDisconnection, DeleteOverflooded]\<rparr>)"
  by (rule closeChannel_alive)

text \<open>
  The theorem at a live session with two queued frames, closed after a transport error.
\<close>

theorem closeChannel_effects_witness:
  "alive (newSession \<lparr>reads = [], writes = [], pingParams = (25, 60)\<rparr> [''a'', ''b'']) \<and>
   closeChannel sampleEnv (newSession \<lparr>reads = [], writes = [], pingParams = (25, 60)\<rparr> [''a'', ''b''])
       [OtherError ''EOF''] =
     (Return None,
      \<lparr>conn = \<lparr>reads = [], writes = [], pingParams = (25, 60)\<rparr>, out = [''1''], header = zeroHeader, alive = False,
       self = 7, overflooded = {8},
       trace = [ConnClose, SetAlive False, Recv ''a'', Recv ''b'', Send ''1'',
                CallLoopEvent OnDisconnection, DeleteOverflooded]\<rparr>)"
  using closeChannel_effects [of "newSession \<lparr>reads = [], writes = [], pingParams = (25, 60)\<rparr> [''a'', ''b'']"
      sampleEnv "[OtherError ''EOF'']"]
  by (simp add: newSession_def sampleEnv_def)

text \<open>
  Claim C1 as stated fails: on that session the liveness clear does not happen before
  the transport close, it happens after it; and the effects of a close with one cause
  are those of a close with another, so the disconnect notification does not carry the
  cause.
\<close>

theorem closeChannel_order_counterexample:
  "alive (newSession \<lparr>reads = [], writes = [], pingParams = (25, 60)\<rparr> [''a'', ''b'']) \<and>
   \<not> precedes (SetAlive False) ConnClose
       (trace (snd (closeChannel sampleEnv (newSession \<lparr>reads = [], writes = [], pingParams = (25, 60)\<rparr> [''a'', ''b''])
                     [OtherError ''EOF'']))) \<and>
   precedes ConnClose (SetAlive False)
       (trace (snd (closeChannel sampleEnv (newSession \<lparr>reads = [], writes = [], pingParams = (25, 60)\<rparr> [''a'', ''b''])
                     [OtherError ''EOF'']))) \<and>
   closeChannel sampleEnv (newSession \<lparr>reads = [], writes = [], pingParams = (25, 60)\<rparr> [''a'', ''b''])
       [OtherError ''EOF''] =
   closeChannel sampleEnv (newSession \<lparr>reads = [], writes = [], pingParams = (25, 60)\<rparr> [''a'', ''b''])
       [ErrorSocketOverflood]"
  by (simp add: closeChannel_alive newSession_def sampleEnv_def)

text \<open>
  Claim C2. On a session whose liveness flag is false, \<^verbatim>\<open>closeChannel\<close> returns \<^verbatim>\<open>nil\<close> and
  leaves the whole state as it was: queue, registry, and the log of effects (no
  transport close, no receive, no send, no notification). On every session it returns
  \<^verbatim>\<open>nil\<close>: it neither fails, blocks nor panics. A second close after a first one changes
  nothing.
\<close>

theorem closeChannel_idempotent:
  "(\<not> alive s \<longrightarrow> closeChannel E s cause = (Return None, s)) \<and>
   fst (closeChannel E s cause) = Return None \<and>
   closeChannel E (snd (closeChannel E s cause)) cause' =
     (Return None, snd (closeChannel E s cause))"
proof -
  have "\<not> alive (snd (closeChannel E s cause))"
    by (cases "alive s") (simp_all add: closeChannel_alive closeChannel_dead)
  then show ?thesis
    by (simp add: closeChannel_dead closeChannel_returns)
qed

text \<open>The theorem at a session that is already closed.\<close>

theorem closeChannel_idempotent_witness:
  "\<not> alive ((newSession \<lparr>reads = [], writes = [], pingParams = (25, 60)\<rparr> [''a''])\<lparr>alive := False\<rparr>) \<and>
   closeChannel sampleEnv ((newSession \<lparr>reads = [], writes = [], pingParams = (25, 60)\<rparr> [''a''])\<lparr>alive := False\<rparr>)
       [ErrorSocketOverflood] =
     (Return None,
      \<lparr>conn = \<lparr>reads = [], writes = [], pingParams = (25, 60)\<rparr>, out = [''a''], header = zeroHeader, alive = False,
       self = 7, overflooded = {7, 8}, trace = []\<rparr>)"
  using closeChannel_idempotent
    [of "(newSession \<lparr>reads = [], writes = [], pingParams = (25, 60)\<rparr> [''a''])\<lparr>alive := False\<rparr>" sampleEnv
        "[ErrorSocketOverflood]" "[]"]
  by (simp add: newSession_def)

section \<open>Writer loop\<close>

text \<open>
  Claim C3. One iteration of the writer loop, with \<open>d\<close> the length of the queue and
  \<open>C\<close> its capacity \<^verbatim>\<open>queueBufferSize\<close>. If \<open>C - 1 \<le> d\<close> the iteration is the call of
  \<^verbatim>\<open>closeChannel\<close> with \<^verbatim>\<open>ErrorSocketOverflood\<close> and nothing more: the loop returns, and the
  transport has been neither read nor written. If \<open>C div 2 < d < C - 1\<close> the session is
  stored in the registry, and if \<open>d \<le> C div 2\<close> it is deleted from it; the dequeue and
  the write come after that, on the state with the registry updated. When the frame
  dequeued is the terminal frame, the loop returns \<^verbatim>\<open>nil\<close> with the frame taken off the
  queue and nothing written. In both returning cases the loop \<^verbatim>\<open>outLoop\<close> itself returns
  \<^verbatim>\<open>nil\<close> without having used the transport.
\<close>

theorem outIter_policy:
  "(queueBufferSize - 1 \<le> length (out s) \<longrightarrow>
      outIter E s = closeChannel E s [ErrorSocketOverflood] \<and>
      fst (outIter E s) = Return None \<and>
      conn (snd (outIter E s)) = conn s \<and>
      outLoop E s = closeChannel E s [ErrorSocketOverflood]) \<and>
   (queueBufferSize div 2 < length (out s) \<and> length (out s) < queueBufferSize - 1 \<longrightarrow>
      outIter E s = outSend E (storeOverflow s) \<and>
      self s \<in> overflooded (storeOverflow s)) \<and>
   (length (out s) \<le> queueBufferSize div 2 \<longrightarrow>
      outIter E s = outSend E (deleteOverflooded s) \<and>
      self s \<notin> overflooded (deleteOverflooded s)) \<and>
   (out s = CloseMessage E # q \<longrightarrow>
      outSend E s = (Return None, s\<lparr>out := q, trace := trace s @ [Recv (CloseMessage E)]\<rparr>) \<and>
      (length (out s) < queueBufferSize - 1 \<longrightarrow>
         fst (outLoop E s) = Return None \<and> conn (snd (outLoop E s)) = conn s))"
proof -
  have a: "queueBufferSize - 1 \<le> length (out s) \<Longrightarrow>
      outIter E s = closeChannel E s [ErrorSocketOverflood]"
    by (simp add: outIter_def)
  have b: "queueBufferSize div 2 < length (out s) \<Longrightarrow> length (out s) < queueBufferSize - 1 \<Longrightarrow>
      outIter E s = outSend E (storeOverflow s)"
    by (simp add: outIter_def)
  have c: "length (out s) \<le> queueBufferSize div 2 \<Longrightarrow>
      outIter E s = outSend E (deleteOverflooded s)"
    by (simp add: outIter_def queueBufferSize_def)
  have d: "out s = CloseMessage E # q \<Longrightarrow>
      outSend E s = (Return None, s\<lparr>out := q, trace := trace s @ [Recv (CloseMessage E)]\<rparr>)"
    by (simp add: outSend_def chan_recv_def)
  show ?thesis
    using a b c d outLoop_sentinel [of s E q]
    by (simp add: closeChannel_returns closeChannel_conn outLoop_overflow storeOverflow_def
        deleteOverflooded_def)
qed

text \<open>
  The theorem at three queues: 9999
  frames (the session is closed), the terminal frame followed by 5000 frames (stored in
  the registry, then the loop returns), and the terminal frame followed by one frame
  (deleted from the registry, then the loop returns).
\<close>

theorem outIter_policy_witness:
  "outIter sampleEnv (newSession \<lparr>reads = [], writes = [], pingParams = (25, 60)\<rparr> (replicate 9999 ''m'')) =
     (Return None,
      \<lparr>conn = \<lparr>reads = [], writes = [], pingParams = (25, 60)\<rparr>, out = [''1''], header = zeroHeader, alive = False,
       self = 7, overflooded = {8},
       trace = [ConnClose, SetAlive False] @ replicate 9999 (Recv ''m'') @
               [Send ''1'', CallLoopEvent OnDisconnection, DeleteOverflooded]\<rparr>) \<and>
   outIter sampleEnv (newSession \<lparr>reads = [], writes = [], pingParams = (25, 60)\<rparr> (''1'' # replicate 5000 ''m'')) =
     (Return None,
      \<lparr>conn = \<lparr>reads = [], writes = [], pingParams = (25, 60)\<rparr>, out = replicate 5000 ''m'', header = zeroHeader,
       alive = True, self = 7, overflooded = {7, 8},
       trace = [StoreOverflow, Recv ''1'']\<rparr>) \<and>
   outIter sampleEnv (newSession \<lparr>reads = [], writes = [], pingParams = (25, 60)\<rparr> [''1'', ''m'']) =
     (Return None,
      \<lparr>conn = \<lparr>reads = [], writes = [], pingParams = (25, 60)\<rparr>, out = [''m''], header = zeroHeader,
       alive = True, self = 7, overflooded = {8},
       trace = [DeleteOverflooded, Recv ''1'']\<rparr>)"
proof -
  let ?c = "\<lparr>reads = [], writes = [], pingParams = (25, 60)\<rparr>"
  have 1: "outIter sampleEnv (newSession ?c (replicate 9999 ''m'')) =
      closeChannel sampleEnv (newSession ?c (replicate 9999 ''m'')) [ErrorSocketOverflood]"
    using outIter_policy [of "newSession ?c (replicate 9999 ''m'')" sampleEnv]
    by (simp add: newSession_def queueBufferSize_def)
  have 2: "outIter sampleEnv (newSession ?c (''1'' # replicate 5000 ''m'')) =
      outSend sampleEnv (storeOverflow (newSession ?c (''1'' # replicate 5000 ''m'')))"
    using outIter_policy [of "newSession ?c (''1'' # replicate 5000 ''m'')" sampleEnv]
    by (simp add: newSession_def queueBufferSize_def)
  have 3: "outIter sampleEnv (newSession ?c [''1'', ''m'']) =
      outSend sampleEnv (deleteOverflooded (newSession ?c [''1'', ''m'']))"
    using outIter_policy [of "newSession ?c [''1'', ''m'']" sampleEnv]
    by (simp add: newSession_def queueBufferSize_def)
  have 4: "outSend sampleEnv (storeOverflow (newSession ?c (''1'' # replicate 5000 ''m''))) =
      (Return None, (storeOverflow (newSession ?c (''1'' # replicate 5000 ''m'')))
         \<lparr>out := replicate 5000 ''m'', trace := [StoreOverflow, Recv ''1'']\<rparr>)"
    using outIter_policy [of "storeOverflow (newSession ?c (''1'' # replicate 5000 ''m''))"
        sampleEnv "replicate 5000 ''m''"]
    by (simp add: newSession_def storeOverflow_def sampleEnv_def)
  have 5: "outSend sampleEnv (deleteOverflooded (newSession ?c [''1'', ''m''])) =
      (Return None, (deleteOverflooded (newSession ?c [''1'', ''m'']))
         \<lparr>out := [''m''], trace := [DeleteOverflooded, Recv ''1'']\<rparr>)"
    using outIter_policy [of "deleteOverflooded (newSession ?c [''1'', ''m''])" sampleEnv "[''m'']"]
    by (simp add: newSession_def deleteOverflooded_def sampleEnv_def)
  show ?thesis
    unfolding 1 2 3 4 5
    by (simp add: closeChannel_alive newSession_def sampleEnv_def storeOverflow_def
        deleteOverflooded_def)
qed

section \<open>Reader loop\<close>

text \<open>
  Claim C4, evaluated. The transport's first \<^verbatim>\<open>GetMessage\<close> returns the error \<^verbatim>\<open>EOF\<close>: the
  reader loop closes the session and returns what \<^verbatim>\<open>closeChannel\<close> returns, which is
  \<^verbatim>\<open>nil\<close>, not the read error. (On a decode error the loop returns the error, as
  \<open>inLoop_decode_error\<close> shows.)
\<close>

theorem inLoop_read_error_returns_nil:
  "inLoop sampleEnv (newSession \<lparr>reads = [Inl (OtherError ''EOF'')], writes = [], pingParams = (25, 60)\<rparr> [''a'']) =
     (Return None,
      \<lparr>conn = \<lparr>reads = [], writes = [], pingParams = (25, 60)\<rparr>, out = [''1''], header = zeroHeader, alive = False,
       self = 7, overflooded = {8},
       trace = [ConnClose, SetAlive False, Recv ''a'', Send ''1'',
                CallLoopEvent OnDisconnection, DeleteOverflooded]\<rparr>)"
  by (subst inLoop.simps)
     (simp add: GetMessage_def closeChannel_alive newSession_def sampleEnv_def)




text \<open>
  Claim C6. When the reader loop handles an Open frame whose payload, the source
  without its first byte, the JSON decoder rejects, it calls \<^verbatim>\<open>closeChannel\<close> with
  \<^verbatim>\<open>ErrorWrongHeader\<close>, on the session holding the header as the decoder left it, and then
  calls the dispatcher with the connection event; the loop goes on. On a live session
  the log grows by the effects of the close followed by the connection event.
\<close>

theorem open_parse_failure_closes_then_connects:
  "Type msg = MessageTypeOpen \<Longrightarrow> Source msg = b # payload \<Longrightarrow>
   Unmarshal E payload (header s) = (Some e, h) \<Longrightarrow>
   inDispatch E msg s =
     (Continue,
      callLoopEvent OnConnection (snd (closeChannel E (s\<lparr>header := h\<rparr>) [ErrorWrongHeader]))) \<and>
   trace (snd (inDispatch E msg s)) =
     trace (snd (closeChannel E (s\<lparr>header := h\<rparr>) [ErrorWrongHeader])) @
     [CallLoopEvent OnConnection] \<and>
   (alive s \<longrightarrow>
      trace (snd (inDispatch E msg s)) =
        trace s @ [ConnClose, SetAlive False] @ map Recv (out s) @
        [Send (CloseMessage E), CallLoopEvent OnDisconnection, DeleteOverflooded,
         CallLoopEvent OnConnection])"
  by (simp add: inDispatch_open callLoopEvent_def closeChannel_alive)

text \<open>The theorem at a live session with one queued frame and the payload \<^verbatim>\<open>x\<close>.\<close>

theorem open_parse_failure_closes_then_connects_witness:
  "inDispatch sampleEnv \<lparr>Type = MessageTypeOpen, Source = ''0x''\<rparr>
     (newSession \<lparr>reads = [], writes = [], pingParams = (25, 60)\<rparr> [''a'']) =
     (Continue,
      \<lparr>conn = \<lparr>reads = [], writes = [], pingParams = (25, 60)\<rparr>, out = [''1''], header = zeroHeader, alive = False,
       self = 7, overflooded = {8},
       trace = [ConnClose, SetAlive False, Recv ''a'', Send ''1'',
                CallLoopEvent OnDisconnection, DeleteOverflooded,
                CallLoopEvent OnConnection]\<rparr>)"
  using open_parse_failure_closes_then_connects
    [of "\<lparr>Type = MessageTypeOpen, Source = ''0x''\<rparr>" "CHR ''0''" "''x''" sampleEnv
        "newSession \<lparr>reads = [], writes = [], pingParams = (25, 60)\<rparr> [''a'']" "OtherError ''invalid character''"
        zeroHeader]
  by (simp add: newSession_def sampleEnv_def sampleUnmarshal_def closeChannel_alive
      callLoopEvent_def)

text \<open>
  Claim C8. Handling a Ping frame sends exactly one pong frame to the queue and changes
  nothing else of the session (liveness flag, header, registry and transport are as
  before); the send proceeds when the queue holds fewer than \<^verbatim>\<open>queueBufferSize\<close> frames,
  and while the queue is full the reader is suspended in the send with nothing changed.
  Handling a Pong frame changes nothing at all.
\<close>

theorem ping_enqueues_pong_and_pong_is_noop:
  "(Type msg = MessageTypePing \<and> length (out s) < queueBufferSize \<longrightarrow>
      inDispatch E msg s =
        (Continue, s\<lparr>out := out s @ [PongMessage E], trace := trace s @ [Send (PongMessage E)]\<rparr>)) \<and>
   (Type msg = MessageTypePing \<and> queueBufferSize \<le> length (out s) \<longrightarrow>
      inDispatch E msg s = (Block, s)) \<and>
   (Type msg = MessageTypePong \<longrightarrow> inDispatch E msg s = (Continue, s))"
  by (simp add: inDispatch_def chan_send_def)

text \<open>
  The theorem at a Ping frame on a queue of one frame, a Ping frame on a full queue and a
  Pong frame.
\<close>

theorem ping_enqueues_pong_and_pong_is_noop_witness:
  "inDispatch sampleEnv \<lparr>Type = MessageTypePing, Source = ''2''\<rparr>
     (newSession \<lparr>reads = [], writes = [], pingParams = (25, 60)\<rparr> [''a'']) =
     (Continue,
      \<lparr>conn = \<lparr>reads = [], writes = [], pingParams = (25, 60)\<rparr>, out = [''a'', ''3''], header = zeroHeader, alive = True,
       self = 7, overflooded = {7, 8}, trace = [Send ''3'']\<rparr>) \<and>
   inDispatch sampleEnv \<lparr>Type = MessageTypePing, Source = ''2''\<rparr>
     (newSession \<lparr>reads = [], writes = [], pingParams = (25, 60)\<rparr> (replicate 10000 ''a'')) =
     (Block, newSession \<lparr>reads = [], writes = [], pingParams = (25, 60)\<rparr> (replicate 10000 ''a'')) \<and>
   inDispatch sampleEnv \<lparr>Type = MessageTypePong, Source = ''3''\<rparr>
     (newSession \<lparr>reads = [], writes = [], pingParams = (25, 60)\<rparr> [''a'']) =
     (Continue, newSession \<lparr>reads = [], writes = [], pingParams = (25, 60)\<rparr> [''a''])"
  using
    ping_enqueues_pong_and_pong_is_noop [of "\<lparr>Type = MessageTypePing, Source = ''2''\<rparr>"
      "newSession \<lparr>reads = [], writes = [], pingParams = (25, 60)\<rparr> [''a'']" sampleEnv]
    ping_enqueues_pong_and_pong_is_noop [of "\<lparr>Type = MessageTypePing, Source = ''2''\<rparr>"
      "newSession \<lparr>reads = [], writes = [], pingParams = (25, 60)\<rparr> (replicate 10000 ''a'')" sampleEnv]
    ping_enqueues_pong_and_pong_is_noop [of "\<lparr>Type = MessageTypePong, Source = ''3''\<rparr>"
      "newSession \<lparr>reads = [], writes = [], pingParams = (25, 60)\<rparr> [''a'']" sampleEnv]
  by (simp add: newSession_def sampleEnv_def queueBufferSize_def)

text \<open>
  Claim C10. An Open message whose source is empty makes the reader loop panic: the
  slice \<^verbatim>\<open>msg.Source[1:]\<close> is out of range, whatever the JSON decoder is, and the session
  is left as it was. Handling an Open message panics exactly when its source is empty,
  so the decoder is reached only for a non-empty source.
\<close>

theorem open_empty_source_panics:
  "Type msg = MessageTypeOpen \<Longrightarrow>
   (Source msg = [] \<longrightarrow> inDispatch E msg s = (Panic, s)) \<and>
   (fst (inDispatch E msg s) = Panic) = (Source msg = [])"
proof -
  assume t: "Type msg = MessageTypeOpen"
  have e: "Source msg = [] \<Longrightarrow> inDispatch E msg s = (Panic, s)"
    using t by (simp add: inDispatch_def)
  have n: "fst (inDispatch E msg s) \<noteq> Panic" if "Source msg \<noteq> []"
  proof -
    from that obtain b payload where "Source msg = b # payload"
      by (cases "Source msg") auto
    from inDispatch_open_no_panic [OF t this] show ?thesis by simp
  qed
  show ?thesis using e n by auto
qed

text \<open>The theorem at an Open message with the empty source.\<close>

theorem open_empty_source_panics_witness:
  "inDispatch sampleEnv \<lparr>Type = MessageTypeOpen, Source = []\<rparr>
     (newSession \<lparr>reads = [], writes = [], pingParams = (25, 60)\<rparr> []) =
     (Panic, newSession \<lparr>reads = [], writes = [], pingParams = (25, 60)\<rparr> [])"
  using open_empty_source_panics [of "\<lparr>Type = MessageTypeOpen, Source = []\<rparr>" sampleEnv
      "newSession \<lparr>reads = [], writes = [], pingParams = (25, 60)\<rparr> []"]
  by simp

section \<open>Keepalive timer\<close>

text \<open>
  Claim C9. A tick of the pinger on a session whose liveness flag is false returns with
  the state unchanged, so nothing is enqueued. On a live session it sends exactly one
  ping frame to the queue and changes nothing else; the send proceeds when the queue
  holds fewer than \<^verbatim>\<open>queueBufferSize\<close> frames, and while the queue is full the pinger is
  suspended in the send with nothing changed.
\<close>

theorem pinger_tick:
  "(\<not> alive s \<longrightarrow> pingerTick E s = (Return (), s)) \<and>
   (alive s \<and> length (out s) < queueBufferSize \<longrightarrow>
      pingerTick E s =
        (Continue, s\<lparr>out := out s @ [PingMessage E], trace := trace s @ [Send (PingMessage E)]\<rparr>)) \<and>
   (alive s \<and> queueBufferSize \<le> length (out s) \<longrightarrow> pingerTick E s = (Block, s))"
  by (simp add: pingerTick_def IsAlive_def chan_send_def)

text \<open>The theorem at a closed session, a live session and a live session with a full queue.\<close>

theorem pinger_tick_witness:
  "pingerTick sampleEnv ((newSession \<lparr>reads = [], writes = [], pingParams = (25, 60)\<rparr> [''a''])\<lparr>alive := False\<rparr>) =
     (Return (), (newSession \<lparr>reads = [], writes = [], pingParams = (25, 60)\<rparr> [''a''])\<lparr>alive := False\<rparr>) \<and>
   pingerTick sampleEnv (newSession \<lparr>reads = [], writes = [], pingParams = (25, 60)\<rparr> [''a'']) =
     (Continue,
      \<lparr>conn = \<lparr>reads = [], writes = [], pingParams = (25, 60)\<rparr>, out = [''a'', ''2''], header = zeroHeader, alive = True,
       self = 7, overflooded = {7, 8}, trace = [Send ''2'']\<rparr>) \<and>
   pingerTick sampleEnv (newSession \<lparr>reads = [], writes = [], pingParams = (25, 60)\<rparr> (replicate 10000 ''a'')) =
     (Block, newSession \<lparr>reads = [], writes = [], pingParams = (25, 60)\<rparr> (replicate 10000 ''a''))"
  using
    pinger_tick [of "(newSession \<lparr>reads = [], writes = [], pingParams = (25, 60)\<rparr> [''a''])\<lparr>alive := False\<rparr>" sampleEnv]
    pinger_tick [of "newSession \<lparr>reads = [], writes = [], pingParams = (25, 60)\<rparr> [''a'']" sampleEnv]
    pinger_tick [of "newSession \<lparr>reads = [], writes = [], pingParams = (25, 60)\<rparr> (replicate 10000 ''a'')" sampleEnv]
  by (simp add: newSession_def sampleEnv_def queueBufferSize_def)

section \<open>Ack exclusivity\<close>

text \<open>
  Claim C7. For a correlation id with a pending waiter: when the reply comes first, the
  waiter receives the payload, and a later expiry or a second reply for that id changes
  nothing; when the deadline has elapsed and the expiry comes first, the waiter receives
  the timeout, and a later reply or a second expiry changes nothing. Whatever follows
  the first resolution in a run of events, the waiter of that id has received that one
  result only, and no run of events gives it more than one.
\<close>

theorem ack_waiter_resolved_once:
  "resultWaiters ap cid = Some d \<Longrightarrow>
   resolutions_of cid (ack_run (ReplyArrives cid p # evs) ap) =
     resolutions_of cid ap @ [AckReply p] \<and>
   expire now cid (deliverReply cid p ap) = deliverReply cid p ap \<and>
   deliverReply cid p' (deliverReply cid p ap) = deliverReply cid p ap \<and>
   (d \<le> now \<longrightarrow>
      resolutions_of cid (ack_run (TimerFires now cid # evs) ap) =
        resolutions_of cid ap @ [AckTimeout] \<and>
      deliverReply cid p (expire now cid ap) = expire now cid ap \<and>
      expire now' cid (expire now cid ap) = expire now cid ap) \<and>
   length (resolutions_of cid (ack_run evs ap)) \<le> Suc (length (resolutions_of cid ap))"
proof -
  assume w: "resultWaiters ap cid = Some d"
  have 1: "expire now cid (deliverReply cid p ap) = deliverReply cid p ap"
    and 2: "deliverReply cid p' (deliverReply cid p ap) = deliverReply cid p ap"
    using w by (simp_all add: deliverReply_def expire_def)
  have 3: "d \<le> now \<Longrightarrow> deliverReply cid p (expire now cid ap) = expire now cid ap"
    and 4: "d \<le> now \<Longrightarrow> expire now' cid (expire now cid ap) = expire now cid ap"
    using w by (simp_all add: deliverReply_def expire_def)
  show ?thesis
    using 1 2 3 4 ack_run_reply_first [OF w] ack_run_timeout_first [OF w] ack_run_pending [OF w]
    by simp
qed

text \<open>
  The theorem at the waiter of id 3 with deadline 5: a reply followed by an expiry and a
  second reply, and an expiry at time 5 followed by a late reply and a second expiry.
\<close>

theorem ack_waiter_resolved_once_witness:
  "resultWaiters sampleAck 3 = Some 5 \<and>
   resolutions_of 3 (ack_run [ReplyArrives 3 ''ok'', TimerFires 5 3, ReplyArrives 3 ''again''] sampleAck) =
     [AckReply ''ok''] \<and>
   resolutions_of 3 (ack_run [TimerFires 5 3, ReplyArrives 3 ''late'', TimerFires 6 3] sampleAck) =
     [AckTimeout] \<and>
   deliverReply 3 ''late'' (expire 5 3 sampleAck) = expire 5 3 sampleAck \<and>
   expire 5 3 (deliverReply 3 ''ok'' sampleAck) = deliverReply 3 ''ok'' sampleAck"
proof -
  have w: "resultWaiters sampleAck 3 = Some 5"
    by (simp add: sampleAck_def)
  have e: "resolutions_of 3 sampleAck = []"
    by (simp add: sampleAck_def resolutions_of_def)
  show ?thesis
    using w e
      ack_waiter_resolved_once [OF w, of "''ok''" "[TimerFires 5 3, ReplyArrives 3 ''again'']"
        5 "''again''" 6]
      ack_waiter_resolved_once [OF w, of "''late''" "[ReplyArrives 3 ''late'', TimerFires 6 3]"
        5 "''late''" 6]
      ack_waiter_resolved_once [OF w, of "''ok''" "[]" 5 "''again''" 6]
    by simp
qed

end
